theory Spec2Isabelle
  imports Main
begin

section \<open>Data model (src/monitoring/types.ts)\<close>

text \<open>
  The TypeScript interfaces become records, the string-literal unions become datatypes.
  Several interfaces share field names (\<open>id\<close>, \<open>status\<close>, \<open>tags\<close>, \<open>error\<close>, ...), so every
  field carries a prefix naming its interface: \<open>cfg_\<close> (CheckConfig), \<open>chan_\<close> (AlertChannel),
  \<open>hist_\<close> (HistoryEntry), \<open>st_\<close> (CheckState), \<open>res_\<close> (CheckResult), \<open>alert_\<close> (AlertPayload),
  and likewise \<open>tr_\<close> for the object \<open>{ newState, alertType }\<close> that \<open>computeTransition\<close> returns.
  An optional field \<open>f?: T\<close> and a field \<open>T | null\<close> are \<open>T option\<close>. A \<open>number\<close> is an
  \<open>int\<close>: every number these functions handle is a counter, a status code or a number of
  milliseconds, far inside the range where doubles are exact integers.
\<close>

datatype CheckType = Api | Browser

datatype CheckStatus = Unknown | Healthy | Degraded | Unhealthy

datatype AlertChannelType = Slack | Telegram | Email

datatype AlertType = Failure | Recovery

record CheckConfig =
  cfg_id :: string
  cfg_name :: string
  cfg_type :: CheckType
  cfg_url :: string
  cfg_expectedStatus :: "int option"
  cfg_timeoutMs :: "int option"
  cfg_failureThreshold :: "int option"
  cfg_tags :: "string list option"

record AlertChannel =
  chan_type :: AlertChannelType
  chan_enabled :: bool
  chan_tags :: "string list option"

record MonitoringConfig =
  config_checks :: "CheckConfig list"
  config_channels :: "AlertChannel list"
  defaultFailureThreshold :: int
  defaultTimeoutMs :: int

record HistoryEntry =
  hist_timestamp :: string
  hist_status :: CheckStatus
  hist_responseTimeMs :: int
  hist_error :: "string option"

text \<open>
  \<open>CheckState.history\<close> is declared \<open>HistoryEntry[]\<close>, but a state written before the field
  existed comes back from storage without it, and \<open>computeTransition\<close> guards against that
  (\<open>state.history ?? []\<close>). The field is therefore optional here: \<open>None\<close> is the legacy
  state whose \<open>history\<close> is \<open>undefined\<close>.
\<close>

record CheckState =
  st_id :: string
  st_status :: CheckStatus
  st_consecutiveFailures :: int
  st_lastCheck :: "string option"
  st_lastSuccess :: "string option"
  st_lastError :: "string option"
  st_responseTimeMs :: "int option"
  st_history :: "HistoryEntry list option"

record MonitoringState =
  state_checks :: "string \<rightharpoonup> CheckState"
  lastRun :: "string option"

record CheckResult =
  res_id :: string
  res_success :: bool
  res_statusCode :: "int option"
  res_responseTimeMs :: int
  res_error :: "string option"

record AlertPayload =
  alert_type :: AlertType
  alert_check :: CheckConfig
  alert_checkState :: CheckState
  alert_result :: CheckResult
  alert_timestamp :: string

section \<open>State persistence (src/monitoring/state.ts)\<close>


definition createEmptyCheckState :: "string \<Rightarrow> CheckState" where
  "createEmptyCheckState ident =
     \<lparr>st_id = ident,
      st_status = Unknown,
      st_consecutiveFailures = 0,
      st_lastCheck = None,
      st_lastSuccess = None,
      st_lastError = None,
      st_responseTimeMs = None,
      st_history = Some []\<rparr>"

section \<open>The health state machine (src/monitoring/alerts.ts)\<close>

text \<open>
  \<open>computeTransition\<close> returns the object \<open>{ newState, alertType }\<close>. It reads the clock once
  (\<open>new Date().toISOString()\<close>); the reading is the parameter \<open>now\<close>. The branches and the
  order of the field updates are those of the source.
\<close>

record Transition =
  tr_newState :: CheckState
  tr_alertType :: "AlertType option"

definition computeTransition :: "CheckState \<Rightarrow> CheckResult \<Rightarrow> int \<Rightarrow> string \<Rightarrow> Transition" where
  "computeTransition state result threshold now =
     (let updated = state
            \<lparr>st_history := Some (case st_history state of None \<Rightarrow> [] | Some h \<Rightarrow> h),
             st_lastCheck := Some now,
             st_responseTimeMs := Some (res_responseTimeMs result)\<rparr>
      in if res_success result then
           (let wasUnhealthy = (st_status state = Unhealthy);
                updated = updated
                  \<lparr>st_status := Healthy,
                   st_consecutiveFailures := 0,
                   st_lastSuccess := Some now,
                   st_lastError := st_lastError state\<rparr>
            in \<lparr>tr_newState = updated,
                tr_alertType = (if wasUnhealthy then Some Recovery else None)\<rparr>)
         else
           (let updated = updated
                  \<lparr>st_consecutiveFailures := st_consecutiveFailures state + 1,
                   st_lastError := res_error result\<rparr>
            in if st_consecutiveFailures updated \<ge> threshold then
                 (let wasAlreadyUnhealthy = (st_status state = Unhealthy);
                      updated = updated\<lparr>st_status := Unhealthy\<rparr>
                  in \<lparr>tr_newState = updated,
                      tr_alertType = (if wasAlreadyUnhealthy then None else Some Failure)\<rparr>)
               else
                 (let updated = updated\<lparr>st_status := Degraded\<rparr>
                  in \<lparr>tr_newState = updated, tr_alertType = None\<rparr>)))"

section \<open>Tag routing (src/monitoring/alerts.ts)\<close>

text \<open>
  \<open>!channel.tags || channel.tags.length === 0\<close>: an absent tag list and an empty one are
  treated alike, for the channel and for the check.
  \<open>channel.tags.some((tag) => check.tags.includes(tag))\<close> is \<open>list_ex\<close> over the channel's tags.
\<close>

definition shouldChannelReceive :: "AlertChannel \<Rightarrow> CheckConfig \<Rightarrow> bool" where
  "shouldChannelReceive channel check =
     (if \<not> chan_enabled channel then False
      else (case chan_tags channel of
        None \<Rightarrow> True
      | Some channelTags \<Rightarrow>
          (if length channelTags = 0 then True
           else (case cfg_tags check of
             None \<Rightarrow> False
           | Some checkTags \<Rightarrow>
               (if length checkTags = 0 then False
                else list_ex (\<lambda>tag. tag \<in> set checkTags) channelTags)))))"

section \<open>Strings\<close>

text \<open>
  \<open>String.prototype.includes\<close> with a plain-text needle, and the decimal rendering that a
  template literal gives an integer \<open>number\<close>.
\<close>

fun startsWith :: "string \<Rightarrow> string \<Rightarrow> bool" where
  "startsWith s [] = True"
| "startsWith [] (c # cs) = False"
| "startsWith (x # xs) (c # cs) = (x = c \<and> startsWith xs cs)"

fun str_includes :: "string \<Rightarrow> string \<Rightarrow> bool" where
  "str_includes [] needle = startsWith [] needle"
| "str_includes (x # xs) needle = (startsWith (x # xs) needle \<or> str_includes xs needle)"

definition digitChar :: "nat \<Rightarrow> char" where
  "digitChar d = ''0123456789'' ! d"

fun natToString :: "nat \<Rightarrow> string" where
  "natToString n =
     (if n < 10 then [digitChar n] else natToString (n div 10) @ [digitChar (n mod 10)])"

declare natToString.simps [simp del]

definition numberToString :: "int \<Rightarrow> string" where
  "numberToString i =
     (if i < 0 then CHR ''-'' # natToString (nat (- i)) else natToString (nat i))"

section \<open>The probe executor (src/monitoring/runner.ts)\<close>

text \<open>
  What a \<open>catch\<close> clause can receive: an \<open>Error\<close> object with its \<open>message\<close>, or any other
  thrown value (\<open>err instanceof Error\<close> is false).
\<close>

datatype Thrown = ErrorObj string | NonError

text \<open>
  The network as the probe sees it. \<open>FetchBehaviour\<close> is what the server and the transport
  would do if nobody cancelled the request: answer with a status code after some
  milliseconds, fail after some milliseconds, or never settle. \<open>FetchOutcome\<close> is how the
  awaited \<open>fetch\<close> call ends.
\<close>

datatype FetchBehaviour = Responds int int | Fails Thrown int | Hangs

datatype FetchOutcome = Response int | Rejects Thrown

text \<open>
  One call of \<open>fetch\<close> by \<open>runCheck\<close>, with the two readings of \<open>Date.now()\<close> around it.
\<close>

record Attempt =
  att_startedAt :: int
  att_behaviour :: FetchBehaviour
  att_endedAt :: int

text \<open>
  Lines 17 to 27 of runner.ts: \<open>setTimeout(() => controller.abort(), timeoutMs)\<close>, then
  \<open>await fetch(url, { signal: controller.signal, ... })\<close>. The timer, the abort signal and
  \<open>fetch\<close> belong to the runtime, not to the repository; this is their contract. A request
  that settles before the timer fires ends as it would have; otherwise the abort makes
  \<open>fetch\<close> reject with the runtime's abort error, an \<open>Error\<close> (a DOMException named
  AbortError) whose message is the parameter \<open>abortMessage\<close>.
\<close>

definition fetchWithAbort :: "string \<Rightarrow> int \<Rightarrow> FetchBehaviour \<Rightarrow> FetchOutcome" where
  "fetchWithAbort abortMessage timeoutMs behaviour =
     (case behaviour of
        Responds status latency \<Rightarrow>
          if latency < timeoutMs then Response status else Rejects (ErrorObj abortMessage)
      | Fails err latency \<Rightarrow>
          if latency < timeoutMs then Rejects err else Rejects (ErrorObj abortMessage)
      | Hangs \<Rightarrow> Rejects (ErrorObj abortMessage))"

text \<open>
  The attempt was cancelled by the timer: the request had not settled when
  \<open>timeoutMs\<close> milliseconds had passed.
\<close>

definition cancelledByTimeout :: "int \<Rightarrow> FetchBehaviour \<Rightarrow> bool" where
  "cancelledByTimeout timeoutMs behaviour =
     (case behaviour of
        Responds status latency \<Rightarrow> \<not> latency < timeoutMs
      | Fails err latency \<Rightarrow> \<not> latency < timeoutMs
      | Hangs \<Rightarrow> True)"

text \<open>
  \<open>runCheck\<close>. The resolved URL only selects which server is asked; what comes back is the
  environment's: \<open>net k\<close> is the \<open>k\<close>-th call of \<open>fetch\<close> made by the probe executor, and the
  function returns, with the result, the number of calls made so far. The \<open>try\<close> block is
  the \<open>Response\<close> branch, the \<open>catch\<close> block the \<open>Rejects\<close> branch.
\<close>

definition runCheck ::
  "CheckConfig \<Rightarrow> int \<Rightarrow> string \<Rightarrow> (nat \<Rightarrow> Attempt) \<Rightarrow> nat \<Rightarrow> CheckResult \<times> nat" where
  "runCheck check timeoutMs abortMessage net k =
     (let attempt = net k;
          start = att_startedAt attempt
      in (case fetchWithAbort abortMessage timeoutMs (att_behaviour attempt) of
            Response status \<Rightarrow>
              (let responseTimeMs = att_endedAt attempt - start;
                   expectedStatus = (case cfg_expectedStatus check of None \<Rightarrow> 200 | Some e \<Rightarrow> e);
                   success = (status = expectedStatus)
               in \<lparr>res_id = cfg_id check,
                   res_success = success,
                   res_statusCode = Some status,
                   res_responseTimeMs = responseTimeMs,
                   res_error =
                     (if success then None
                      else Some (''Expected status '' @ numberToString expectedStatus
                                 @ '', got '' @ numberToString status))\<rparr>)
          | Rejects err \<Rightarrow>
              (let responseTimeMs = att_endedAt attempt - start;
                   message = (case err of ErrorObj m \<Rightarrow> m | NonError \<Rightarrow> ''Unknown error'');
                   isTimeout = str_includes message ''abort''
               in \<lparr>res_id = cfg_id check,
                   res_success = False,
                   res_statusCode = None,
                   res_responseTimeMs = responseTimeMs,
                   res_error =
                     Some (if isTimeout then ''Timeout after '' @ numberToString timeoutMs @ ''ms''
                           else message)\<rparr>),
          Suc k))"

text \<open>
  The probe executor as section 4.1 of the specification words it, for comparison with
  \<open>runCheck\<close>: after an attempt that got no response (transport failure or timeout, the
  attempts whose \<open>statusCode\<close> is null) try again, at most \<open>retry_count\<close> more times, and
  return the last attempt's outcome. The wait of \<open>retry_delay_ms\<close> between attempts changes
  no value and is not represented.
\<close>

fun spec_runCheckWithRetries ::
  "nat \<Rightarrow> CheckConfig \<Rightarrow> int \<Rightarrow> string \<Rightarrow> (nat \<Rightarrow> Attempt) \<Rightarrow> nat \<Rightarrow> CheckResult \<times> nat" where
  "spec_runCheckWithRetries 0 check timeoutMs abortMessage net k =
     runCheck check timeoutMs abortMessage net k"
| "spec_runCheckWithRetries (Suc retry_count) check timeoutMs abortMessage net k =
     (case runCheck check timeoutMs abortMessage net k of
        (outcome, k') \<Rightarrow>
          if res_statusCode outcome = None
          then spec_runCheckWithRetries retry_count check timeoutMs abortMessage net k'
          else (outcome, k'))"

section \<open>Alert dispatch (src/monitoring/alerts.ts)\<close>

text \<open>
  The worker environment. \<open>MoltbotEnv\<close> is declared in src/types.ts, outside the monitoring
  directory; the fields here are the ones that alerts.ts reads, each a string that may be
  unset. \<open>if (env.X)\<close> tests truthiness: the variable is set and is not the empty string.
\<close>

record MoltbotEnv =
  SLACK_WEBHOOK_URL :: "string option"
  TELEGRAM_BOT_TOKEN :: "string option"
  MONITORING_TELEGRAM_CHAT_ID :: "string option"
  RESEND_API_KEY :: "string option"
  RESEND_FROM_EMAIL :: "string option"
  MONITORING_EMAIL_TO :: "string option"

definition truthy :: "string option \<Rightarrow> bool" where
  "truthy v = (case v of None \<Rightarrow> False | Some s \<Rightarrow> s \<noteq> [])"

text \<open>
  How a \<open>Promise<void>\<close> ends: fulfilled, rejected with the thrown value, or never settled.
  The three senders (\<open>sendSlackAlert\<close>, \<open>sendTelegramAlert\<close>, \<open>sendEmailAlert\<close>) are \<open>async\<close>
  functions, so calling one never throws: whatever happens inside (a transport error, a
  non-2xx answer turned into \<open>throw new Error(...)\<close>) is the rejection of the promise it
  returns. What each call's promise does is the environment's and is the parameter
  \<open>send\<close>: \<open>send i c payload\<close> is the promise of the \<open>i\<close>-th sender call of this dispatch,
  made for a channel of type \<open>c\<close>.
\<close>

datatype Settled = Fulfilled | RejectedWith Thrown | Pending

type_synonym Sender = "nat \<Rightarrow> AlertChannelType \<Rightarrow> AlertPayload \<Rightarrow> Settled"

text \<open>
  \<open>promise.catch((err) => console.error(label, err))\<close>: a rejection becomes a fulfilled
  promise and one line on the error console; anything else passes through.
\<close>

definition catchAndLog :: "string \<Rightarrow> Settled \<Rightarrow> Settled \<times> (string \<times> Thrown) list" where
  "catchAndLog label p =
     (case p of
        RejectedWith err \<Rightarrow> (Fulfilled, [(label, err)])
      | Fulfilled \<Rightarrow> (Fulfilled, [])
      | Pending \<Rightarrow> (Pending, []))"

text \<open>
  \<open>Promise.all\<close>: rejected as soon as one member is, fulfilled when all are, pending
  otherwise.
\<close>

fun promiseAll :: "Settled list \<Rightarrow> Settled" where
  "promiseAll [] = Fulfilled"
| "promiseAll (p # ps) =
     (case p of
        RejectedWith err \<Rightarrow> RejectedWith err
      | Fulfilled \<Rightarrow> promiseAll ps
      | Pending \<Rightarrow> (case promiseAll ps of RejectedWith err \<Rightarrow> RejectedWith err | _ \<Rightarrow> Pending))"

text \<open>
  One element of the array \<open>tasks\<close>: the channel the sender was called for, the promise
  after its \<open>.catch\<close>, and what the handler wrote to the console.
\<close>

record Task =
  task_channel :: AlertChannelType
  task_promise :: Settled
  task_logged :: "(string \<times> Thrown) list"

text \<open>
  \<open>sendXAlert(..., payload).catch((err) => console.error(label, err))\<close>, the argument of
  \<open>tasks.push\<close>; \<open>i\<close> is the number of sender calls made before this one.
\<close>

definition startTask :: "Sender \<Rightarrow> string \<Rightarrow> nat \<Rightarrow> AlertChannelType \<Rightarrow> AlertPayload \<Rightarrow> Task" where
  "startTask send label i c payload =
     (case catchAndLog label (send i c payload) of
        (p, logged) \<Rightarrow> \<lparr>task_channel = c, task_promise = p, task_logged = logged\<rparr>)"

text \<open>The \<open>for (const channel of config.channels)\<close> loop with its \<open>switch\<close>.\<close>

fun dispatchLoop ::
  "MoltbotEnv \<Rightarrow> Sender \<Rightarrow> CheckConfig \<Rightarrow> AlertPayload \<Rightarrow> AlertChannel list \<Rightarrow> Task list \<Rightarrow> Task list" where
  "dispatchLoop env send check payload [] tasks = tasks"
| "dispatchLoop env send check payload (channel # rest) tasks =
     dispatchLoop env send check payload rest
       (if \<not> shouldChannelReceive channel check then tasks
        else case chan_type channel of
          Slack \<Rightarrow>
            if truthy (SLACK_WEBHOOK_URL env)
            then tasks @ [startTask send ''[monitoring] Slack alert failed:''
                            (length tasks) Slack payload]
            else tasks
        | Telegram \<Rightarrow>
            if truthy (TELEGRAM_BOT_TOKEN env) \<and> truthy (MONITORING_TELEGRAM_CHAT_ID env)
            then tasks @ [startTask send ''[monitoring] Telegram alert failed:''
                            (length tasks) Telegram payload]
            else tasks
        | Email \<Rightarrow>
            if truthy (RESEND_API_KEY env) \<and> truthy (RESEND_FROM_EMAIL env)
               \<and> truthy (MONITORING_EMAIL_TO env)
            then tasks @ [startTask send ''[monitoring] Email alert failed:''
                            (length tasks) Email payload]
            else tasks)"

text \<open>
  \<open>dispatchAlerts\<close> returns a promise; the model returns how that promise ends
  (\<open>dsp_promise\<close>, the \<open>await Promise.all(tasks)\<close>) together with what the call did: the
  payload it built and the tasks it started. \<open>now\<close> is its reading of the clock.
\<close>

record Dispatch =
  dsp_payload :: AlertPayload
  dsp_tasks :: "Task list"
  dsp_promise :: Settled

definition dispatchAlerts ::
  "AlertType \<Rightarrow> CheckConfig \<Rightarrow> CheckState \<Rightarrow> CheckResult \<Rightarrow> MonitoringConfig \<Rightarrow> MoltbotEnv
     \<Rightarrow> string \<Rightarrow> Sender \<Rightarrow> Dispatch" where
  "dispatchAlerts alertType check checkState result config env now send =
     (let payload =
            \<lparr>alert_type = alertType,
             alert_check = check,
             alert_checkState = checkState,
             alert_result = result,
             alert_timestamp = now\<rparr>;
          tasks = dispatchLoop env send check payload (config_channels config) []
      in \<lparr>dsp_payload = payload,
          dsp_tasks = tasks,
          dsp_promise = promiseAll (map task_promise tasks)\<rparr>)"

text \<open>
  For stating what a dispatch does: whether the \<open>switch\<close> finds the credentials of a
  channel type in the environment, whether the loop calls the sender of a channel, and
  the label of the console line of each channel type.
\<close>

definition credentialsSet :: "MoltbotEnv \<Rightarrow> AlertChannelType \<Rightarrow> bool" where
  "credentialsSet env c =
     (case c of
        Slack \<Rightarrow> truthy (SLACK_WEBHOOK_URL env)
      | Telegram \<Rightarrow> truthy (TELEGRAM_BOT_TOKEN env) \<and> truthy (MONITORING_TELEGRAM_CHAT_ID env)
      | Email \<Rightarrow> truthy (RESEND_API_KEY env) \<and> truthy (RESEND_FROM_EMAIL env)
                 \<and> truthy (MONITORING_EMAIL_TO env))"

definition channelSelected :: "MoltbotEnv \<Rightarrow> CheckConfig \<Rightarrow> AlertChannel \<Rightarrow> bool" where
  "channelSelected env check channel =
     (shouldChannelReceive channel check \<and> credentialsSet env (chan_type channel))"

definition failureLabel :: "AlertChannelType \<Rightarrow> string" where
  "failureLabel c =
     (case c of
        Slack \<Rightarrow> ''[monitoring] Slack alert failed:''
      | Telegram \<Rightarrow> ''[monitoring] Telegram alert failed:''
      | Email \<Rightarrow> ''[monitoring] Email alert failed:'')"

section \<open>The orchestrator (src/monitoring/index.ts)\<close>

text \<open>\<open>xs.slice(-n)\<close> for a positive \<open>n\<close>: the last \<open>n\<close> elements, all of them when there are fewer.\<close>

definition sliceLast :: "nat \<Rightarrow> 'a list \<Rightarrow> 'a list" where
  "sliceLast n xs = drop (length xs - n) xs"

text \<open>
  Lines 42 to 52: push the history entry, then trim. \<open>now\<close> is the clock reading of the
  push. On a state without a history array the \<open>push\<close> would throw a TypeError, which is
  the \<open>None\<close> result.
\<close>

definition recordHistory :: "CheckState \<Rightarrow> CheckResult \<Rightarrow> string \<Rightarrow> CheckState option" where
  "recordHistory newState result now =
     (case st_history newState of
        None \<Rightarrow> None
      | Some h \<Rightarrow>
          (let pushed = h @ [\<lparr>hist_timestamp = now,
                              hist_status = st_status newState,
                              hist_responseTimeMs = res_responseTimeMs result,
                              hist_error = res_error result\<rparr>]
           in Some (newState\<lparr>st_history :=
                      Some (if length pushed > 288 then sliceLast 288 pushed else pushed)\<rparr>)))"

text \<open>
  The environment of one run: the abort message of the runtime, the probe requests, the
  successive readings of \<open>new Date().toISOString()\<close>, and the senders' behaviour in the
  \<open>d\<close>-th dispatch of the run.
\<close>

record World =
  w_abortMessage :: string
  w_fetch :: "nat \<Rightarrow> Attempt"
  w_now :: "nat \<Rightarrow> string"
  w_send :: "nat \<Rightarrow> Sender"

text \<open>
  What the loop has done so far: the state being updated, the number of probe requests
  and of clock readings made, and the dispatches in order.
\<close>

record Progress =
  run_state :: MonitoringState
  run_fetches :: nat
  run_clockReads :: nat
  run_dispatches :: "Dispatch list"

text \<open>
  How an iteration can fail to reach the next one: a TypeError thrown by the history
  push, or an \<open>await\<close> on a dispatch that never settles.
\<close>

datatype Stuck = ThrowsTypeError | AwaitsForever

text \<open>
  The body of \<open>for (const check of config.checks)\<close>, lines 29 to 64, without the
  \<open>console.log\<close> lines. A rejected dispatch is caught by the \<open>try\<close> and only logged.
\<close>

definition evaluateCheck ::
  "MonitoringConfig \<Rightarrow> MoltbotEnv \<Rightarrow> World \<Rightarrow> CheckConfig \<Rightarrow> Progress \<Rightarrow> Stuck + Progress" where
  "evaluateCheck config env w check run =
     (let timeoutMs = (case cfg_timeoutMs check of None \<Rightarrow> defaultTimeoutMs config | Some t \<Rightarrow> t);
          threshold = (case cfg_failureThreshold check of
                         None \<Rightarrow> defaultFailureThreshold config | Some t \<Rightarrow> t);
          state = run_state run;
          checkState = (case state_checks state (cfg_id check) of
                          None \<Rightarrow> createEmptyCheckState (cfg_id check) | Some s \<Rightarrow> s)
      in case runCheck check timeoutMs (w_abortMessage w) (w_fetch w) (run_fetches run) of
        (result, fetches) \<Rightarrow>
          (let tr = computeTransition checkState result threshold (w_now w (run_clockReads run))
           in case recordHistory (tr_newState tr) result (w_now w (run_clockReads run + 1)) of
             None \<Rightarrow> Inl ThrowsTypeError
           | Some newState' \<Rightarrow>
               (let state' = state\<lparr>state_checks := (state_checks state)(cfg_id check \<mapsto> newState')\<rparr>
                in case tr_alertType tr of
                  None \<Rightarrow>
                    Inr (run\<lparr>run_state := state',
                             run_fetches := fetches,
                             run_clockReads := run_clockReads run + 2\<rparr>)
                | Some a \<Rightarrow>
                    (let d = dispatchAlerts a check newState' result config env
                               (w_now w (run_clockReads run + 2))
                               (w_send w (length (run_dispatches run)))
                     in if dsp_promise d = Pending then Inl AwaitsForever
                        else Inr (run\<lparr>run_state := state',
                                      run_fetches := fetches,
                                      run_clockReads := run_clockReads run + 3,
                                      run_dispatches := run_dispatches run @ [d]\<rparr>)))))"

text \<open>The loop over \<open>config.checks\<close>, sequential, stopping where an iteration is stuck.\<close>

fun runChecksLoop ::
  "MonitoringConfig \<Rightarrow> MoltbotEnv \<Rightarrow> World \<Rightarrow> CheckConfig list \<Rightarrow> Progress \<Rightarrow> Stuck + Progress" where
  "runChecksLoop config env w [] run = Inr run"
| "runChecksLoop config env w (check # rest) run =
     (case evaluateCheck config env w check run of
        Inl stuck \<Rightarrow> Inl stuck
      | Inr run' \<Rightarrow> runChecksLoop config env w rest run')"

section \<open>Configuration and fixtures of the repository\<close>

text \<open>The static configuration of src/monitoring/checks.ts.\<close>

definition campermateWebsite :: CheckConfig where
  "campermateWebsite =
     \<lparr>cfg_id = ''campermate-website'',
      cfg_name = ''Campermate Website'',
      cfg_type = Api,
      cfg_url = ''https://www.campermate.com'',
      cfg_expectedStatus = Some 200,
      cfg_timeoutMs = None,
      cfg_failureThreshold = None,
      cfg_tags = Some [''production'']\<rparr>"

definition sandboxHealth :: CheckConfig where
  "sandboxHealth =
     \<lparr>cfg_id = ''sandbox-health'',
      cfg_name = ''Moltworker Health'',
      cfg_type = Api,
      cfg_url = ''{{WORKER_URL}}/sandbox-health'',
      cfg_expectedStatus = Some 200,
      cfg_timeoutMs = None,
      cfg_failureThreshold = None,
      cfg_tags = Some [''infrastructure'']\<rparr>"

definition monitoringConfig :: MonitoringConfig where
  "monitoringConfig =
     \<lparr>config_checks = [campermateWebsite, sandboxHealth],
      config_channels =
        [\<lparr>chan_type = Slack, chan_enabled = False, chan_tags = None\<rparr>,
         \<lparr>chan_type = Telegram, chan_enabled = True, chan_tags = None\<rparr>,
         \<lparr>chan_type = Email, chan_enabled = False, chan_tags = None\<rparr>],
      defaultFailureThreshold = 2,
      defaultTimeoutMs = 10000\<rparr>"

text \<open>The fixtures of src/monitoring/alerts.test.ts.\<close>

definition successResult :: CheckResult where
  "successResult =
     \<lparr>res_id = ''test'', res_success = True, res_statusCode = Some 200,
      res_responseTimeMs = 100, res_error = None\<rparr>"

definition failureResult :: CheckResult where
  "failureResult =
     \<lparr>res_id = ''test'', res_success = False, res_statusCode = Some 503,
      res_responseTimeMs = 200, res_error = Some ''Expected status 200, got 503''\<rparr>"

definition testCheck :: CheckConfig where
  "testCheck =
     \<lparr>cfg_id = ''test'',
      cfg_name = ''Test'',
      cfg_type = Api,
      cfg_url = ''https://example.com'',
      cfg_expectedStatus = None,
      cfg_timeoutMs = None,
      cfg_failureThreshold = None,
      cfg_tags = Some [''production'', ''web'']\<rparr>"

definition unhealthyState :: CheckState where
  "unhealthyState =
     (createEmptyCheckState ''test'')\<lparr>st_status := Unhealthy, st_consecutiveFailures := 3\<rparr>"

definition degradedState :: CheckState where
  "degradedState =
     (createEmptyCheckState ''test'')\<lparr>st_status := Degraded, st_consecutiveFailures := 1\<rparr>"

text \<open>
  Environments for the examples below. Every probe of \<open>exampleWorld\<close> is answered with
  status 200 after 85 ms and every sender succeeds; \<open>flakyNetwork\<close> refuses the first
  connection and answers the second request; \<open>abortedPeerNetwork\<close> fails at once with a
  transport error whose message happens to contain the word abort; \<open>silentNetwork\<close> never
  answers. The abort message is the one of the Workers runtime. The Slack sender of
  \<open>slackDown\<close> fails, the one of \<open>slackHangs\<close> never settles; their other senders succeed.
\<close>

definition exampleWorld :: World where
  "exampleWorld =
     \<lparr>w_abortMessage = ''The operation was aborted'',
      w_fetch = (\<lambda>k. \<lparr>att_startedAt = 1000, att_behaviour = Responds 200 85, att_endedAt = 1085\<rparr>),
      w_now = (\<lambda>k. ''2026-01-01T00:05:00Z''),
      w_send = (\<lambda>d i c payload. Fulfilled)\<rparr>"

definition flakyNetwork :: "nat \<Rightarrow> Attempt" where
  "flakyNetwork k =
     (if k = 0
      then \<lparr>att_startedAt = 0, att_behaviour = Fails (ErrorObj ''connection refused'') 12,
            att_endedAt = 12\<rparr>
      else \<lparr>att_startedAt = 312, att_behaviour = Responds 200 85, att_endedAt = 397\<rparr>)"

definition abortedPeerNetwork :: "nat \<Rightarrow> Attempt" where
  "abortedPeerNetwork k =
     \<lparr>att_startedAt = 0, att_behaviour = Fails (ErrorObj ''connection aborted by peer'') 40,
      att_endedAt = 40\<rparr>"

definition silentNetwork :: "nat \<Rightarrow> Attempt" where
  "silentNetwork k = \<lparr>att_startedAt = 0, att_behaviour = Hangs, att_endedAt = 10001\<rparr>"

definition badGatewayNetwork :: "nat \<Rightarrow> Attempt" where
  "badGatewayNetwork k =
     \<lparr>att_startedAt = 0, att_behaviour = Responds 503 85, att_endedAt = 85\<rparr>"


definition allCredentials :: MoltbotEnv where
  "allCredentials =
     \<lparr>SLACK_WEBHOOK_URL = Some ''https://hooks.slack.com/services/T/B/X'',
      TELEGRAM_BOT_TOKEN = Some ''test-bot-token'',
      MONITORING_TELEGRAM_CHAT_ID = Some ''test-chat-id'',
      RESEND_API_KEY = Some ''re_test'',
      RESEND_FROM_EMAIL = Some ''monitor@example.com'',
      MONITORING_EMAIL_TO = Some ''ops@example.com''\<rparr>"

definition allChannelsEnabled :: MonitoringConfig where
  "allChannelsEnabled =
     monitoringConfig
       \<lparr>config_channels :=
          [\<lparr>chan_type = Slack, chan_enabled = True, chan_tags = None\<rparr>,
           \<lparr>chan_type = Telegram, chan_enabled = True, chan_tags = Some [''production'']\<rparr>,
           \<lparr>chan_type = Email, chan_enabled = True, chan_tags = Some [''staging'']\<rparr>]\<rparr>"

definition slackDown :: Sender where
  "slackDown i c payload =
     (if c = Slack then RejectedWith (ErrorObj ''Slack webhook failed: 500'') else Fulfilled)"

definition slackHangs :: Sender where
  "slackHangs i c payload = (if c = Slack then Pending else Fulfilled)"




section \<open>Vocabulary of the properties\<close>

text \<open>The invariant of section 8: a healthy target has no consecutive failures.\<close>

definition healthyMeansNoFailures :: "CheckState \<Rightarrow> bool" where
  "healthyMeansNoFailures s = (st_status s = Healthy \<longrightarrow> st_consecutiveFailures s = 0)"





text \<open>
  What every evaluation leaves behind for its target: a status other than \<open>unknown\<close>, the
  invariant, and a history of at most 288 entries.
\<close>

definition wellKept :: "CheckState \<Rightarrow> bool" where
  "wellKept s =
     (st_status s \<noteq> Unknown \<and> healthyMeansNoFailures s
      \<and> length (case st_history s of None \<Rightarrow> [] | Some h \<Rightarrow> h) \<le> 288)"

section \<open>Properties of the state machine\<close>

text \<open>
  C1. On a failed probe \<open>computeTransition\<close> adds exactly 1 to \<open>consecutiveFailures\<close>. When
  the new count has reached the threshold the status is \<open>unhealthy\<close> and the alert is
  \<open>failure\<close> exactly when the prior status was not \<open>unhealthy\<close> (no alert otherwise); below
  the threshold the status is \<open>degraded\<close> and there is no alert, whatever the prior status.
  With threshold 1 the first failure of a fresh (\<open>unknown\<close>) target gives \<open>unhealthy\<close> and a
  \<open>failure\<close> alert.
\<close>

theorem computeTransition_failure:
  "\<not> res_success result \<Longrightarrow>
   st_consecutiveFailures (tr_newState (computeTransition state result threshold now))
     = st_consecutiveFailures state + 1
   \<and> st_status (tr_newState (computeTransition state result threshold now))
     = (if threshold \<le> st_consecutiveFailures state + 1 then Unhealthy else Degraded)
   \<and> tr_alertType (computeTransition state result threshold now)
     = (if threshold \<le> st_consecutiveFailures state + 1 \<and> st_status state \<noteq> Unhealthy
        then Some Failure else None)
   \<and> st_status (tr_newState (computeTransition (createEmptyCheckState ident) result 1 now))
     = Unhealthy
   \<and> tr_alertType (computeTransition (createEmptyCheckState ident) result 1 now) = Some Failure"
proof (cases "threshold \<le> st_consecutiveFailures state + 1")
  case True
  assume "\<not> res_success result"
  with True show ?thesis
    by (simp add: computeTransition_def createEmptyCheckState_def Let_def)
next
  case False
  assume "\<not> res_success result"
  with False show ?thesis
    by (simp add: computeTransition_def createEmptyCheckState_def Let_def)
qed

theorem computeTransition_failure_witness:
  "\<not> res_success failureResult
   \<and> st_consecutiveFailures
       (tr_newState (computeTransition degradedState failureResult 2 ''2026-01-01T00:05:00Z'')) = 2
   \<and> st_status
       (tr_newState (computeTransition degradedState failureResult 2 ''2026-01-01T00:05:00Z''))
       = Unhealthy
   \<and> tr_alertType (computeTransition degradedState failureResult 2 ''2026-01-01T00:05:00Z'')
       = Some Failure
   \<and> st_status
       (tr_newState (computeTransition degradedState failureResult 3 ''2026-01-01T00:05:00Z''))
       = Degraded
   \<and> tr_alertType (computeTransition unhealthyState failureResult 2 ''2026-01-01T00:05:00Z'')
       = None"
proof -
  have failed: "\<not> res_success failureResult"
    by (simp add: failureResult_def)
  show ?thesis
    using failed
      computeTransition_failure [OF failed, of degradedState 2 "''2026-01-01T00:05:00Z''"]
      computeTransition_failure [OF failed, of degradedState 3 "''2026-01-01T00:05:00Z''"]
      computeTransition_failure [OF failed, of unhealthyState 2 "''2026-01-01T00:05:00Z''"]
    by (simp add: degradedState_def unhealthyState_def createEmptyCheckState_def)
qed

text \<open>
  C2. On a successful probe the new status is \<open>healthy\<close>, \<open>consecutiveFailures\<close> is 0, and
  the alert is \<open>recovery\<close> exactly when the prior status was \<open>unhealthy\<close>; from \<open>degraded\<close>,
  \<open>unknown\<close> or \<open>healthy\<close> there is no alert.
\<close>

theorem computeTransition_success:
  "res_success result \<Longrightarrow>
   st_status (tr_newState (computeTransition state result threshold now)) = Healthy
   \<and> st_consecutiveFailures (tr_newState (computeTransition state result threshold now)) = 0
   \<and> tr_alertType (computeTransition state result threshold now)
     = (if st_status state = Unhealthy then Some Recovery else None)"
  by (simp add: computeTransition_def Let_def)

theorem computeTransition_success_witness:
  "res_success successResult
   \<and> st_status
       (tr_newState (computeTransition unhealthyState successResult 2 ''2026-01-01T00:05:00Z''))
       = Healthy
   \<and> st_consecutiveFailures
       (tr_newState (computeTransition unhealthyState successResult 2 ''2026-01-01T00:05:00Z''))
       = 0
   \<and> tr_alertType (computeTransition unhealthyState successResult 2 ''2026-01-01T00:05:00Z'')
       = Some Recovery
   \<and> tr_alertType (computeTransition degradedState successResult 2 ''2026-01-01T00:05:00Z'')
       = None"
proof -
  have ok: "res_success successResult"
    by (simp add: successResult_def)
  show ?thesis
    using ok
      computeTransition_success [OF ok, of unhealthyState 2 "''2026-01-01T00:05:00Z''"]
      computeTransition_success [OF ok, of degradedState 2 "''2026-01-01T00:05:00Z''"]
    by (simp add: degradedState_def unhealthyState_def createEmptyCheckState_def)
qed

text \<open>
  C3. The empty check state and the state returned by every \<open>computeTransition\<close> step
  satisfy the invariant: a status of \<open>healthy\<close> comes with \<open>consecutiveFailures = 0\<close>. The
  step establishes it from any prior state; the empty state has no failures at all.
\<close>

theorem healthy_state_has_no_failures:
  "healthyMeansNoFailures (createEmptyCheckState ident)
   \<and> st_consecutiveFailures (createEmptyCheckState ident) = 0
   \<and> healthyMeansNoFailures (tr_newState (computeTransition state result threshold now))"
  by (simp add: healthyMeansNoFailures_def computeTransition_def createEmptyCheckState_def Let_def)

theorem healthy_state_has_no_failures_witness:
  "st_status
     (tr_newState (computeTransition unhealthyState successResult 2 ''2026-01-01T00:05:00Z''))
     = Healthy
   \<and> st_consecutiveFailures
       (tr_newState (computeTransition unhealthyState successResult 2 ''2026-01-01T00:05:00Z''))
       = 0"
proof -
  have healthy:
    "st_status
       (tr_newState (computeTransition unhealthyState successResult 2 ''2026-01-01T00:05:00Z''))
       = Healthy"
    by (simp add: computeTransition_def successResult_def Let_def)
  show ?thesis
    using healthy
      healthy_state_has_no_failures [of "''test''" unhealthyState successResult 2
        "''2026-01-01T00:05:00Z''"]
    by (simp add: healthyMeansNoFailures_def)
qed

text \<open>
  C10. The status of the state that \<open>computeTransition\<close> returns is \<open>healthy\<close>, \<open>degraded\<close> or
  \<open>unhealthy\<close>, never \<open>unknown\<close>; \<open>unknown\<close> is the status of the empty state created for a
  target that has not been evaluated yet.
\<close>

theorem computeTransition_never_unknown:
  "st_status (tr_newState (computeTransition state result threshold now))
     \<in> {Healthy, Degraded, Unhealthy}
   \<and> st_status (tr_newState (computeTransition state result threshold now)) \<noteq> Unknown
   \<and> st_status (createEmptyCheckState ident) = Unknown"
proof (cases "res_success result")
  case True
  then have "st_status (tr_newState (computeTransition state result threshold now)) = Healthy"
    by (simp add: computeTransition_def Let_def)
  then show ?thesis
    by (simp add: createEmptyCheckState_def)
next
  case False
  then have "st_status (tr_newState (computeTransition state result threshold now))
      = (if st_consecutiveFailures state + 1 \<ge> threshold then Unhealthy else Degraded)"
    by (simp add: computeTransition_def Let_def)
  then show ?thesis
    by (simp add: createEmptyCheckState_def)
qed

section \<open>Properties of tag routing\<close>

text \<open>
  C6. For an enabled channel, \<open>shouldChannelReceive\<close> is true when the channel has no tags
  or an empty tag list; when it has tags, it is true exactly when the check has a tag in
  common with them, so a check without tags (absent or empty list) never matches a
  tag-scoped channel.
\<close>

theorem shouldChannelReceive_enabled:
  "chan_enabled channel \<Longrightarrow>
   shouldChannelReceive channel check =
     (case chan_tags channel of
        None \<Rightarrow> True
      | Some channelTags \<Rightarrow>
          channelTags = [] \<or>
          set channelTags
            \<inter> set (case cfg_tags check of None \<Rightarrow> [] | Some checkTags \<Rightarrow> checkTags) \<noteq> {})"
  by (auto simp add: shouldChannelReceive_def list_ex_iff split: option.splits)

theorem shouldChannelReceive_enabled_witness:
  "chan_enabled \<lparr>chan_type = Slack, chan_enabled = True, chan_tags = Some [''production'']\<rparr>
   \<and> shouldChannelReceive
       \<lparr>chan_type = Slack, chan_enabled = True, chan_tags = Some [''production'']\<rparr> testCheck
   \<and> \<not> shouldChannelReceive
       \<lparr>chan_type = Slack, chan_enabled = True, chan_tags = Some [''production'']\<rparr>
       (testCheck\<lparr>cfg_tags := Some [''staging'']\<rparr>)
   \<and> \<not> shouldChannelReceive
       \<lparr>chan_type = Slack, chan_enabled = True, chan_tags = Some [''production'']\<rparr>
       (testCheck\<lparr>cfg_tags := None\<rparr>)"
proof -
  have on: "chan_enabled \<lparr>chan_type = Slack, chan_enabled = True, chan_tags = Some [''production'']\<rparr>"
    by simp
  show ?thesis
    using on
      shouldChannelReceive_enabled [OF on, of testCheck]
      shouldChannelReceive_enabled [OF on, of "testCheck\<lparr>cfg_tags := Some [''staging'']\<rparr>"]
      shouldChannelReceive_enabled [OF on, of "testCheck\<lparr>cfg_tags := None\<rparr>"]
    by (simp add: testCheck_def)
qed

section \<open>Properties of the probe executor\<close>

lemma natToString_digit: "n < 10 \<Longrightarrow> natToString n = [digitChar n]"
  by (simp add: natToString.simps)

lemma natToString_step:
  "\<not> n < 10 \<Longrightarrow> natToString n = natToString (n div 10) @ [digitChar (n mod 10)]"
  by (subst natToString.simps) simp

lemmas showNumber = numberToString_def natToString_digit natToString_step digitChar_def

text \<open>
  Every call of \<open>runCheck\<close> is one call of \<open>fetch\<close>; the retrying executor makes at least
  one.
\<close>

lemma runCheck_calls: "snd (runCheck check timeoutMs abortMessage net k) = Suc k"
  by (simp add: runCheck_def Let_def)

lemma spec_runCheckWithRetries_calls:
  "k < snd (spec_runCheckWithRetries retry_count check timeoutMs abortMessage net k)"
proof (induction retry_count arbitrary: k)
  case 0
  show ?case by (simp add: runCheck_calls)
next
  case (Suc n)
  obtain outcome k' where step: "runCheck check timeoutMs abortMessage net k = (outcome, k')"
    by (cases "runCheck check timeoutMs abortMessage net k")
  with runCheck_calls [of check timeoutMs abortMessage net k] have k': "k' = Suc k"
    by simp
  from Suc.IH [of k'] k' step show ?case
    by (simp split: if_splits)
qed

text \<open>
  C5 does not hold: \<open>runCheck\<close> never retries. On a network that refuses the first
  connection and answers the second request, the executor of section 4.1 with one retry
  makes two attempts and reports success; \<open>runCheck\<close> makes one and reports the failure.
\<close>

theorem runCheck_retry_counterexample:
  "fst (runCheck campermateWebsite 10000 ''The operation was aborted'' flakyNetwork 0)
     \<noteq> fst (spec_runCheckWithRetries 1 campermateWebsite 10000 ''The operation was aborted''
              flakyNetwork 0)
   \<and> \<not> res_success
         (fst (runCheck campermateWebsite 10000 ''The operation was aborted'' flakyNetwork 0))
   \<and> res_error
         (fst (runCheck campermateWebsite 10000 ''The operation was aborted'' flakyNetwork 0))
       = Some ''connection refused''
   \<and> snd (runCheck campermateWebsite 10000 ''The operation was aborted'' flakyNetwork 0) = 1
   \<and> res_success
         (fst (spec_runCheckWithRetries 1 campermateWebsite 10000 ''The operation was aborted''
                 flakyNetwork 0))
   \<and> snd (spec_runCheckWithRetries 1 campermateWebsite 10000 ''The operation was aborted''
             flakyNetwork 0) = 2"
  by (simp add: runCheck_def flakyNetwork_def fetchWithAbort_def campermateWebsite_def Let_def)

text \<open>
  C5 as amended. \<open>runCheck\<close> makes exactly one probe attempt per call, whatever its
  outcome, and returns the outcome of that attempt (the check configuration has no retry
  count and no retry delay). The retrying executor of section 4.1 makes at least that one
  attempt; it returns the same outcome after the same number of attempts as \<open>runCheck\<close>
  exactly when the retry count is 0 or the attempt obtains a response.
\<close>

theorem runCheck_single_attempt:
  "snd (runCheck check timeoutMs abortMessage net k) = Suc k
   \<and> fst (runCheck check timeoutMs abortMessage net k)
       = fst (runCheck check timeoutMs abortMessage (\<lambda>_. net k) 0)
   \<and> Suc k \<le> snd (spec_runCheckWithRetries retry_count check timeoutMs abortMessage net k)
   \<and> (spec_runCheckWithRetries retry_count check timeoutMs abortMessage net k
         = runCheck check timeoutMs abortMessage net k
       \<longleftrightarrow> retry_count = 0
           \<or> res_statusCode (fst (runCheck check timeoutMs abortMessage net k)) \<noteq> None)"
proof (intro conjI)
  show calls: "snd (runCheck check timeoutMs abortMessage net k) = Suc k"
    by (rule runCheck_calls)
  show "fst (runCheck check timeoutMs abortMessage net k)
          = fst (runCheck check timeoutMs abortMessage (\<lambda>_. net k) 0)"
    by (simp add: runCheck_def Let_def)
  show "Suc k \<le> snd (spec_runCheckWithRetries retry_count check timeoutMs abortMessage net k)"
    using spec_runCheckWithRetries_calls [of k retry_count check timeoutMs abortMessage net]
    by simp
  show "spec_runCheckWithRetries retry_count check timeoutMs abortMessage net k
          = runCheck check timeoutMs abortMessage net k
        \<longleftrightarrow> retry_count = 0
            \<or> res_statusCode (fst (runCheck check timeoutMs abortMessage net k)) \<noteq> None"
  proof (cases retry_count)
    case 0
    then show ?thesis by simp
  next
    case (Suc n)
    obtain outcome k' where step: "runCheck check timeoutMs abortMessage net k = (outcome, k')"
      by (cases "runCheck check timeoutMs abortMessage net k")
    with calls have k': "k' = Suc k"
      by simp
    show ?thesis
    proof (cases "res_statusCode outcome = None")
      case True
      from spec_runCheckWithRetries_calls [of k' n check timeoutMs abortMessage net]
      have "snd (spec_runCheckWithRetries n check timeoutMs abortMessage net k') \<noteq> k'"
        by simp
      then have "spec_runCheckWithRetries n check timeoutMs abortMessage net k' \<noteq> (outcome, k')"
        by auto
      with True Suc step show ?thesis
        by simp
    next
      case False
      with Suc step show ?thesis
        by auto
    qed
  qed
qed

theorem runCheck_single_attempt_witness:
  "res_statusCode
     (fst (runCheck campermateWebsite 10000 ''The operation was aborted'' (w_fetch exampleWorld) 0))
     \<noteq> None
   \<and> spec_runCheckWithRetries 3 campermateWebsite 10000 ''The operation was aborted''
         (w_fetch exampleWorld) 0
       = runCheck campermateWebsite 10000 ''The operation was aborted'' (w_fetch exampleWorld) 0
   \<and> snd (runCheck campermateWebsite 10000 ''The operation was aborted'' (w_fetch exampleWorld) 0)
       = 1
   \<and> res_statusCode
       (fst (runCheck campermateWebsite 10000 ''The operation was aborted'' silentNetwork 0))
       = None
   \<and> spec_runCheckWithRetries 1 campermateWebsite 10000 ''The operation was aborted''
         silentNetwork 0
       \<noteq> runCheck campermateWebsite 10000 ''The operation was aborted'' silentNetwork 0"
proof -
  have answered:
    "res_statusCode
       (fst (runCheck campermateWebsite 10000 ''The operation was aborted''
               (w_fetch exampleWorld) 0)) \<noteq> None"
    by (simp add: runCheck_def exampleWorld_def fetchWithAbort_def Let_def)
  have silent:
    "res_statusCode
       (fst (runCheck campermateWebsite 10000 ''The operation was aborted'' silentNetwork 0))
       = None"
    by (simp add: runCheck_def silentNetwork_def fetchWithAbort_def Let_def)
  show ?thesis
    using answered silent
      runCheck_single_attempt [of campermateWebsite 10000 "''The operation was aborted''"
        "w_fetch exampleWorld" 0 3]
      runCheck_single_attempt [of campermateWebsite 10000 "''The operation was aborted''"
        silentNetwork 0 1]
    by simp
qed

text \<open>
  What the \<open>catch\<close> block reports. An attempt cancelled by the timer is reported as
  \<open>Timeout after <timeoutMs>ms\<close>, the runtime's abort message containing \<open>abort\<close>. A
  transport failure before the timer fires is reported with its own message when that
  message does not contain \<open>abort\<close>, and as \<open>Unknown error\<close> when the thrown value is not an
  \<open>Error\<close>.
\<close>

lemma runCheck_timer_abort:
  assumes "cancelledByTimeout timeoutMs (att_behaviour (net k))"
    and "str_includes abortMessage ''abort''"
  shows "\<not> res_success (fst (runCheck check timeoutMs abortMessage net k))
   \<and> res_statusCode (fst (runCheck check timeoutMs abortMessage net k)) = None
   \<and> res_error (fst (runCheck check timeoutMs abortMessage net k))
       = Some (''Timeout after '' @ numberToString timeoutMs @ ''ms'')"
proof -
  from assms(1)
  have "fetchWithAbort abortMessage timeoutMs (att_behaviour (net k))
          = Rejects (ErrorObj abortMessage)"
    by (auto simp add: cancelledByTimeout_def fetchWithAbort_def split: FetchBehaviour.splits)
  with assms(2) show ?thesis
    by (simp add: runCheck_def Let_def)
qed

lemma runCheck_transport_failure:
  assumes "att_behaviour (net k) = Fails thrown latency" and "latency < timeoutMs"
  shows "\<not> res_success (fst (runCheck check timeoutMs abortMessage net k))
   \<and> res_statusCode (fst (runCheck check timeoutMs abortMessage net k)) = None
   \<and> res_error (fst (runCheck check timeoutMs abortMessage net k))
       = (case thrown of
            ErrorObj message \<Rightarrow>
              Some (if str_includes message ''abort''
                    then ''Timeout after '' @ numberToString timeoutMs @ ''ms''
                    else message)
          | NonError \<Rightarrow> Some ''Unknown error'')"
proof -
  from assms
  have "fetchWithAbort abortMessage timeoutMs (att_behaviour (net k)) = Rejects thrown"
    by (simp add: fetchWithAbort_def)
  then show ?thesis
    by (cases thrown) (simp_all add: runCheck_def Let_def)
qed

lemma runCheck_timeout_examples:
  "res_error
     (fst (runCheck campermateWebsite 10000 ''The operation was aborted'' silentNetwork 0))
     = Some ''Timeout after 10000ms''
   \<and> res_error
       (fst (runCheck campermateWebsite 10000 ''The operation was aborted'' flakyNetwork 0))
       = Some ''connection refused''"
proof -
  have cancelled: "cancelledByTimeout 10000 (att_behaviour (silentNetwork 0))"
    by (simp add: cancelledByTimeout_def silentNetwork_def)
  have word: "str_includes ''The operation was aborted'' ''abort''"
    by simp
  have refused: "att_behaviour (flakyNetwork 0) = Fails (ErrorObj ''connection refused'') 12"
    by (simp add: flakyNetwork_def)
  have soon: "(12::int) < 10000"
    by simp
  show ?thesis
    using
      runCheck_timer_abort [where net = silentNetwork and k = 0 and timeoutMs = 10000
        and abortMessage = "''The operation was aborted''" and check = campermateWebsite,
        OF cancelled word]
      runCheck_transport_failure [where net = flakyNetwork and k = 0 and timeoutMs = 10000
        and abortMessage = "''The operation was aborted''" and check = campermateWebsite,
        OF refused soon]
    by (simp add: showNumber)
qed

text \<open>
  C7. An attempt cancelled by the per-attempt timer is to be reported with
  \<open>success = false\<close> and a timeout error naming the duration, and a transport failure that
  is not a timeout with \<open>success = false\<close> and its underlying message. \<open>runCheck\<close> sets its
  flag \<open>isTimeout\<close> by looking for \<open>abort\<close> in the message of the caught error, and that
  test also accepts transport errors. Here the connection fails after 40 ms with the
  message \<open>connection aborted by peer\<close>, long before the 10000 ms of the timer, so the
  attempt is not cancelled by the timer; the result nevertheless carries the error
  \<open>Timeout after 10000ms\<close> and the underlying message is lost.
\<close>

theorem runCheck_transport_abort_reported_as_timeout:
  "\<not> cancelledByTimeout 10000 (att_behaviour (abortedPeerNetwork 0))
   \<and> att_behaviour (abortedPeerNetwork 0) = Fails (ErrorObj ''connection aborted by peer'') 40
   \<and> fetchWithAbort ''The operation was aborted'' 10000 (att_behaviour (abortedPeerNetwork 0))
       = Rejects (ErrorObj ''connection aborted by peer'')
   \<and> \<not> res_success
         (fst (runCheck campermateWebsite 10000 ''The operation was aborted'' abortedPeerNetwork 0))
   \<and> res_error
         (fst (runCheck campermateWebsite 10000 ''The operation was aborted'' abortedPeerNetwork 0))
       = Some ''Timeout after 10000ms''
   \<and> res_error
         (fst (runCheck campermateWebsite 10000 ''The operation was aborted'' abortedPeerNetwork 0))
       \<noteq> Some ''connection aborted by peer''"
  by (simp add: runCheck_def abortedPeerNetwork_def fetchWithAbort_def cancelledByTimeout_def
      Let_def showNumber)

text \<open>A string built around a part contains that part.\<close>

lemma startsWith_append: "startsWith (b @ c) b"
  by (induction b) auto

lemma str_includes_empty: "str_includes s []"
  by (cases s) simp_all

lemma str_includes_prefix: "str_includes (b @ c) b"
proof (cases b)
  case Nil
  then show ?thesis by (simp add: str_includes_empty)
next
  case (Cons y ys)
  have "startsWith ((y # ys) @ c) (y # ys)"
    by (rule startsWith_append)
  with Cons show ?thesis by simp
qed

lemma str_includes_append: "str_includes (a @ b @ c) b"
proof (induction a)
  case Nil
  show ?case by (simp add: str_includes_prefix)
next
  case (Cons x a)
  then show ?case by simp
qed

text \<open>
  C8. A check has no assertion list; its predicate is the status comparison. When the
  probe obtains a response, \<open>runCheck\<close> reports success exactly when the status equals
  \<open>expectedStatus\<close>, or 200 when the check sets none. The error is null on success and
  otherwise the message \<open>Expected status <expected>, got <actual>\<close>, which names both.
\<close>

theorem runCheck_expected_status:
  assumes "att_behaviour (net k) = Responds status latency" and "latency < timeoutMs"
    and "expected = (case cfg_expectedStatus check of None \<Rightarrow> 200 | Some e \<Rightarrow> e)"
    and "r = fst (runCheck check timeoutMs abortMessage net k)"
  shows "res_success r = (status = expected)
   \<and> res_statusCode r = Some status
   \<and> res_error r
       = (if status = expected then None
          else Some (''Expected status '' @ numberToString expected
                     @ '', got '' @ numberToString status))
   \<and> (status \<noteq> expected \<longrightarrow>
        (\<exists>message. res_error r = Some message
           \<and> str_includes message (numberToString expected)
           \<and> str_includes message (numberToString status)))"
proof -
  from assms(1,2)
  have "fetchWithAbort abortMessage timeoutMs (att_behaviour (net k)) = Response status"
    by (simp add: fetchWithAbort_def)
  with assms(3,4) have r: "r =
      \<lparr>res_id = cfg_id check, res_success = (status = expected), res_statusCode = Some status,
       res_responseTimeMs = att_endedAt (net k) - att_startedAt (net k),
       res_error = (if status = expected then None
                    else Some (''Expected status '' @ numberToString expected
                               @ '', got '' @ numberToString status))\<rparr>"
    by (simp add: runCheck_def Let_def)
  have "str_includes (''Expected status '' @ numberToString expected
                      @ '', got '' @ numberToString status) (numberToString expected)"
    by (rule str_includes_append)
  moreover
  have "str_includes ((''Expected status '' @ numberToString expected @ '', got '')
                      @ numberToString status @ []) (numberToString status)"
    by (rule str_includes_append)
  ultimately show ?thesis
    by (simp add: r)
qed

theorem runCheck_expected_status_witness:
  "att_behaviour (badGatewayNetwork 0) = Responds 503 85
   \<and> \<not> res_success
         (fst (runCheck testCheck 10000 ''The operation was aborted'' badGatewayNetwork 0))
   \<and> res_error
         (fst (runCheck testCheck 10000 ''The operation was aborted'' badGatewayNetwork 0))
       = Some ''Expected status 200, got 503''
   \<and> res_success
         (fst (runCheck testCheck 10000 ''The operation was aborted'' (w_fetch exampleWorld) 0))
   \<and> res_error
         (fst (runCheck testCheck 10000 ''The operation was aborted'' (w_fetch exampleWorld) 0))
       = None"
proof -
  have bad: "att_behaviour (badGatewayNetwork 0) = Responds 503 85"
    by (simp add: badGatewayNetwork_def)
  have good: "att_behaviour (w_fetch exampleWorld 0) = Responds 200 85"
    by (simp add: exampleWorld_def)
  have unset: "(200::int) = (case cfg_expectedStatus testCheck of None \<Rightarrow> 200 | Some e \<Rightarrow> e)"
    by (simp add: testCheck_def)
  have soon: "(85::int) < 10000"
    by simp
  show ?thesis
    using bad
      runCheck_expected_status [where net = badGatewayNetwork and k = 0 and status = 503
        and latency = 85 and timeoutMs = 10000 and expected = 200 and check = testCheck
        and abortMessage = "''The operation was aborted''", OF bad soon unset refl]
      runCheck_expected_status [where net = "w_fetch exampleWorld" and k = 0 and status = 200
        and latency = 85 and timeoutMs = 10000 and expected = 200 and check = testCheck
        and abortMessage = "''The operation was aborted''", OF good soon unset refl]
    by (simp add: showNumber)
qed

section \<open>Properties of alert dispatch\<close>

lemma startTask_channel: "task_channel (startTask send label i c payload) = c"
  by (simp add: startTask_def split: prod.splits)

lemma startTask_promise:
  "task_promise (startTask send label i c payload)
     = (case send i c payload of Pending \<Rightarrow> Pending | _ \<Rightarrow> Fulfilled)"
  by (simp add: startTask_def catchAndLog_def split: Settled.splits)

lemma startTask_logged:
  "task_logged (startTask send label i c payload)
     = (case send i c payload of RejectedWith err \<Rightarrow> [(label, err)] | _ \<Rightarrow> [])"
  by (simp add: startTask_def catchAndLog_def split: Settled.splits)

text \<open>
  The loop starts one task for each channel that passes the tag filter and has its
  credentials, in the order of the configuration, after the tasks it was entered with.
\<close>

lemma dispatchLoop_tasks:
  "dispatchLoop env send check payload channels tasks
     = tasks @ map (\<lambda>(i, channel).
                      startTask send (failureLabel (chan_type channel)) i (chan_type channel) payload)
                 (enumerate (length tasks) (filter (channelSelected env check) channels))"
proof (induction channels arbitrary: tasks)
  case Nil
  show ?case by simp
next
  case (Cons channel rest)
  show ?case
  proof (cases "channelSelected env check channel")
    case True
    then show ?thesis
      by (cases "chan_type channel")
        (simp_all add: Cons.IH channelSelected_def credentialsSet_def failureLabel_def)
  next
    case False
    then show ?thesis
      by (cases "chan_type channel")
        (auto simp add: Cons.IH channelSelected_def credentialsSet_def)
  qed
qed

lemma dispatchAlerts_tasks:
  "dsp_tasks (dispatchAlerts alertType check checkState result config env now send)
     = map (\<lambda>(i, channel).
              startTask send (failureLabel (chan_type channel)) i (chan_type channel)
                (dsp_payload (dispatchAlerts alertType check checkState result config env now send)))
         (enumerate 0 (filter (channelSelected env check) (config_channels config)))"
  by (simp add: dispatchAlerts_def Let_def dispatchLoop_tasks)

lemma dispatchAlerts_promise:
  "dsp_promise (dispatchAlerts alertType check checkState result config env now send)
     = promiseAll (map task_promise
         (dsp_tasks (dispatchAlerts alertType check checkState result config env now send)))"
  by (simp add: dispatchAlerts_def Let_def)

lemma promiseAll_not_rejected:
  "(\<And>err. RejectedWith err \<notin> set ps) \<Longrightarrow> promiseAll ps \<noteq> RejectedWith err'"
proof (induction ps)
  case Nil
  show ?case by simp
next
  case (Cons p ps)
  from Cons.prems have tail: "\<And>err. RejectedWith err \<notin> set ps" by simp
  from Cons.prems have head: "\<And>err. p \<noteq> RejectedWith err" by auto
  from Cons.IH [OF tail] head show ?case
    by (cases p; cases "promiseAll ps") simp_all
qed


lemma map_over_enumerate: "map (\<lambda>(i, x). f x) (enumerate n xs) = map f xs"
  by (induction xs arbitrary: n) simp_all


lemma dispatchAlerts_never_rejected:
  "dsp_promise (dispatchAlerts alertType check checkState result config env now send)
     \<noteq> RejectedWith err"
proof -
  let ?d = "dispatchAlerts alertType check checkState result config env now send"
  have "\<And>thrown. RejectedWith thrown \<notin> set (map task_promise (dsp_tasks ?d))"
    by (auto simp add: dispatchAlerts_tasks startTask_promise split: Settled.splits)
  then have "promiseAll (map task_promise (dsp_tasks ?d)) \<noteq> RejectedWith err"
    by (rule promiseAll_not_rejected)
  then show ?thesis
    by (simp add: dispatchAlerts_promise)
qed


lemma promiseAll_settled:
  "(\<And>err. RejectedWith err \<notin> set ps) \<Longrightarrow>
   promiseAll ps = (if Pending \<in> set ps then Pending else Fulfilled)"
proof (induction ps)
  case Nil
  show ?case by simp
next
  case (Cons p ps)
  from Cons.prems have tail: "\<And>err. RejectedWith err \<notin> set ps" by simp
  from Cons.prems have head: "\<And>err. p \<noteq> RejectedWith err" by auto
  from Cons.IH [OF tail] head show ?case
    by (cases p) auto
qed

lemma pending_among_tasks:
  "Pending \<in> set (map task_promise
       (map (\<lambda>(i, channel). startTask send (label channel) i (chan_type channel) payload) ics))
   \<longleftrightarrow> \<not> list_all (\<lambda>(i, channel). send i (chan_type channel) payload \<noteq> Pending) ics"
proof (induction ics)
  case Nil
  show ?case by simp
next
  case (Cons ic ics)
  obtain i channel where ic: "ic = (i, channel)" by (cases ic)
  have "task_promise (startTask send (label channel) i (chan_type channel) payload) = Pending
        \<longleftrightarrow> send i (chan_type channel) payload = Pending"
    by (simp add: startTask_promise split: Settled.splits)
  with Cons.IH ic show ?case
    by auto
qed

text \<open>
  The promise of a dispatch is fulfilled when the promise of every sender it called has
  settled, and stays pending otherwise; senders it did not call do not matter.
\<close>

lemma dispatchAlerts_settles:
  "dsp_promise (dispatchAlerts alertType check checkState result config env now send)
     = (if list_all (\<lambda>(i, channel).
              send i (chan_type channel)
                (dsp_payload (dispatchAlerts alertType check checkState result config env now send))
              \<noteq> Pending)
            (enumerate 0 (filter (channelSelected env check) (config_channels config)))
        then Fulfilled else Pending)"
proof -
  let ?d = "dispatchAlerts alertType check checkState result config env now send"
  let ?called = "enumerate 0 (filter (channelSelected env check) (config_channels config))"
  let ?task = "\<lambda>(i, channel).
      startTask send (failureLabel (chan_type channel)) i (chan_type channel) (dsp_payload ?d)"
  have none: "\<And>thrown. RejectedWith thrown \<notin> set (map task_promise (dsp_tasks ?d))"
    by (auto simp add: dispatchAlerts_tasks startTask_promise split: Settled.splits)
  have "Pending \<in> set (map task_promise (map ?task ?called))
        \<longleftrightarrow> \<not> list_all (\<lambda>(i, channel). send i (chan_type channel) (dsp_payload ?d) \<noteq> Pending)
                 ?called"
    by (rule pending_among_tasks
        [where send = send and payload = "dsp_payload ?d"
           and label = "\<lambda>channel. failureLabel (chan_type channel)"])
  then have "Pending \<in> set (map task_promise (dsp_tasks ?d))
        \<longleftrightarrow> \<not> list_all (\<lambda>(i, channel). send i (chan_type channel) (dsp_payload ?d) \<noteq> Pending)
                 ?called"
    by (simp only: dispatchAlerts_tasks [symmetric])
  with promiseAll_settled [OF none] show ?thesis
    by (simp add: dispatchAlerts_promise)
qed

text \<open>
  C9 does not hold as stated: the promise that \<open>dispatchAlerts\<close> returns does not always
  resolve. The senders have no timeout; when the Slack sender never settles, the
  Telegram sender is still called and succeeds, but the awaited \<open>Promise.all\<close> stays
  pending for ever.
\<close>

theorem dispatchAlerts_hanging_sender_counterexample:
  "dsp_promise
     (dispatchAlerts Failure campermateWebsite unhealthyState failureResult allChannelsEnabled
        allCredentials ''2026-01-01T00:05:00Z'' slackHangs) = Pending
   \<and> dsp_promise
       (dispatchAlerts Failure campermateWebsite unhealthyState failureResult allChannelsEnabled
          allCredentials ''2026-01-01T00:05:00Z'' slackHangs) \<noteq> Fulfilled
   \<and> map task_channel
         (dsp_tasks
            (dispatchAlerts Failure campermateWebsite unhealthyState failureResult
               allChannelsEnabled allCredentials ''2026-01-01T00:05:00Z'' slackHangs))
       = [Slack, Telegram]"
  by (simp add: dispatchAlerts_def Let_def allChannelsEnabled_def monitoringConfig_def
      campermateWebsite_def allCredentials_def shouldChannelReceive_def truthy_def
      startTask_def catchAndLog_def slackHangs_def)

text \<open>
  C9 as amended. The promise that \<open>dispatchAlerts\<close> returns is never rejected, whatever
  the senders do. It is fulfilled exactly when the promise of every sender that the
  dispatch called has settled, by success or by failure, and it stays pending while one
  of them has not. The senders called are those of the channels that pass the tag filter
  and have their credentials, whatever any of them does, so a failing channel takes no
  other channel's delivery away. Each rejection is caught by that channel's own handler
  and gives one console line with the channel's label and the thrown value.
\<close>

theorem dispatchAlerts_isolates_failures:
  "dsp_promise (dispatchAlerts alertType check checkState result config env now send)
     \<noteq> RejectedWith err
   \<and> map task_channel
         (dsp_tasks (dispatchAlerts alertType check checkState result config env now send))
     = map chan_type (filter (channelSelected env check) (config_channels config))
   \<and> concat (map task_logged
         (dsp_tasks (dispatchAlerts alertType check checkState result config env now send)))
     = concat (map (\<lambda>(i, channel).
           case send i (chan_type channel)
                  (dsp_payload
                     (dispatchAlerts alertType check checkState result config env now send)) of
             RejectedWith thrown \<Rightarrow> [(failureLabel (chan_type channel), thrown)]
           | _ \<Rightarrow> [])
         (enumerate 0 (filter (channelSelected env check) (config_channels config))))
   \<and> dsp_promise (dispatchAlerts alertType check checkState result config env now send)
     = (if list_all (\<lambda>(i, channel).
              send i (chan_type channel)
                (dsp_payload (dispatchAlerts alertType check checkState result config env now send))
              \<noteq> Pending)
            (enumerate 0 (filter (channelSelected env check) (config_channels config)))
        then Fulfilled else Pending)"
proof -
  let ?d = "dispatchAlerts alertType check checkState result config env now send"
  let ?selected = "filter (channelSelected env check) (config_channels config)"
  have never: "dsp_promise ?d \<noteq> RejectedWith err"
    by (rule dispatchAlerts_never_rejected)
  have channels: "map task_channel (dsp_tasks ?d) = map chan_type ?selected"
    by (simp add: dispatchAlerts_tasks startTask_channel split_def comp_def
        map_over_enumerate [of chan_type, unfolded split_def])
  have logged: "concat (map task_logged (dsp_tasks ?d))
      = concat (map (\<lambda>(i, channel).
           case send i (chan_type channel) (dsp_payload ?d) of
             RejectedWith thrown \<Rightarrow> [(failureLabel (chan_type channel), thrown)]
           | _ \<Rightarrow> [])
         (enumerate 0 ?selected))"
    by (simp add: dispatchAlerts_tasks startTask_logged split_def comp_def)
  have settles: "dsp_promise ?d
      = (if list_all (\<lambda>(i, channel). send i (chan_type channel) (dsp_payload ?d) \<noteq> Pending)
              (enumerate 0 ?selected)
         then Fulfilled else Pending)"
    by (rule dispatchAlerts_settles)
  from never channels logged settles show ?thesis
    by (intro conjI)
qed

theorem dispatchAlerts_isolates_failures_witness:
  "dsp_promise
     (dispatchAlerts Failure campermateWebsite unhealthyState failureResult allChannelsEnabled
        allCredentials ''2026-01-01T00:05:00Z'' slackDown) = Fulfilled
   \<and> map task_channel
         (dsp_tasks
            (dispatchAlerts Failure campermateWebsite unhealthyState failureResult
               allChannelsEnabled allCredentials ''2026-01-01T00:05:00Z'' slackDown))
       = [Slack, Telegram]
   \<and> concat (map task_logged
         (dsp_tasks
            (dispatchAlerts Failure campermateWebsite unhealthyState failureResult
               allChannelsEnabled allCredentials ''2026-01-01T00:05:00Z'' slackDown)))
       = [(''[monitoring] Slack alert failed:'', ErrorObj ''Slack webhook failed: 500'')]
   \<and> dsp_promise
       (dispatchAlerts Failure campermateWebsite unhealthyState failureResult allChannelsEnabled
          allCredentials ''2026-01-01T00:05:00Z'' slackHangs) = Pending"
proof -
  have selected:
    "filter (channelSelected allCredentials campermateWebsite) (config_channels allChannelsEnabled)
       = [\<lparr>chan_type = Slack, chan_enabled = True, chan_tags = None\<rparr>,
          \<lparr>chan_type = Telegram, chan_enabled = True, chan_tags = Some [''production'']\<rparr>]"
    by (simp add: allChannelsEnabled_def monitoringConfig_def campermateWebsite_def
        allCredentials_def channelSelected_def shouldChannelReceive_def credentialsSet_def
        truthy_def)
  show ?thesis
    using
      dispatchAlerts_isolates_failures [of Failure campermateWebsite unhealthyState failureResult
        allChannelsEnabled allCredentials "''2026-01-01T00:05:00Z''" slackDown]
      dispatchAlerts_isolates_failures [of Failure campermateWebsite unhealthyState failureResult
        allChannelsEnabled allCredentials "''2026-01-01T00:05:00Z''" slackHangs]
    by (simp add: selected slackDown_def slackHangs_def failureLabel_def)
qed

section \<open>Properties of the history\<close>

lemma length_sliceLast: "length (sliceLast n xs) = min n (length xs)"
  by (simp add: sliceLast_def)

lemma sliceLast_short: "length xs \<le> n \<Longrightarrow> sliceLast n xs = xs"
  by (simp add: sliceLast_def)


lemma trim_is_sliceLast:
  "(if length xs > 288 then sliceLast 288 xs else xs) = sliceLast 288 xs"
  by (simp add: sliceLast_short)

lemma computeTransition_history:
  "st_history (tr_newState (computeTransition state result threshold now))
     = Some (case st_history state of None \<Rightarrow> [] | Some h \<Rightarrow> h)"
  by (simp add: computeTransition_def Let_def)

text \<open>
  After \<open>computeTransition\<close> the history array always exists, so the push cannot throw;
  push and trim together keep the last 288 entries of the old history followed by the
  new entry.
\<close>

lemma recordHistory_after_transition:
  "recordHistory (tr_newState (computeTransition state result threshold now)) result now'
     = Some ((tr_newState (computeTransition state result threshold now))
         \<lparr>st_history := Some (sliceLast 288
            ((case st_history state of None \<Rightarrow> [] | Some h \<Rightarrow> h)
             @ [\<lparr>hist_timestamp = now',
                 hist_status = st_status (tr_newState (computeTransition state result threshold now)),
                 hist_responseTimeMs = res_responseTimeMs result,
                 hist_error = res_error result\<rparr>]))\<rparr>)"
  by (simp add: recordHistory_def computeTransition_history Let_def trim_is_sliceLast
      del: length_append)




lemma evaluateCheck_others:
  assumes "evaluateCheck config env w check run = Inr run'" and "ident \<noteq> cfg_id check"
  shows "state_checks (run_state run') ident = state_checks (run_state run) ident"
  using assms
  by (auto simp add: evaluateCheck_def Let_def recordHistory_after_transition
      split: prod.splits option.splits if_splits)




section \<open>The whole run\<close>

text \<open>
  The properties of one evaluation carry over to the loop: when the run completes, every
  target it evaluated is stored with a status other than \<open>unknown\<close>, satisfies the
  invariant and has at most 288 history entries; the targets it did not evaluate are
  stored as they were.
\<close>

lemma recordHistory_wellKept:
  assumes "recordHistory (tr_newState (computeTransition s r t now)) r now' = Some s'"
  shows "wellKept s'"
proof -
  have status: "st_status (tr_newState (computeTransition s r t now)) \<noteq> Unknown"
    by (simp add: computeTransition_def Let_def)
  have inv: "healthyMeansNoFailures (tr_newState (computeTransition s r t now))"
    by (simp add: healthyMeansNoFailures_def computeTransition_def Let_def)
  from assms have s': "s' = (tr_newState (computeTransition s r t now))
         \<lparr>st_history := Some (sliceLast 288
            ((case st_history s of None \<Rightarrow> [] | Some h \<Rightarrow> h)
             @ [\<lparr>hist_timestamp = now',
                 hist_status = st_status (tr_newState (computeTransition s r t now)),
                 hist_responseTimeMs = res_responseTimeMs r,
                 hist_error = res_error r\<rparr>]))\<rparr>"
    by (simp add: recordHistory_after_transition)
  from status inv show ?thesis
    by (simp add: s' wellKept_def healthyMeansNoFailures_def length_sliceLast del: length_append)
qed

lemma evaluateCheck_wellKept:
  assumes "evaluateCheck config env w check run = Inr run'"
  shows "\<exists>s. state_checks (run_state run') (cfg_id check) = Some s \<and> wellKept s"
  using assms
  by (auto simp add: evaluateCheck_def Let_def
      split: prod.splits option.splits if_splits
      intro: recordHistory_wellKept)

lemma runChecksLoop_others:
  "runChecksLoop config env w checks run = Inr run' \<Longrightarrow> ident \<notin> cfg_id ` set checks \<Longrightarrow>
   state_checks (run_state run') ident = state_checks (run_state run) ident"
proof (induction checks arbitrary: run)
  case Nil
  then show ?case by simp
next
  case (Cons check rest)
  from Cons.prems(1) obtain mid where
    step: "evaluateCheck config env w check run = Inr mid"
    and loop: "runChecksLoop config env w rest mid = Inr run'"
    by (auto split: sum.splits)
  from Cons.prems(2) have "ident \<noteq> cfg_id check" and "ident \<notin> cfg_id ` set rest"
    by auto
  with Cons.IH [OF loop] evaluateCheck_others [OF step] show ?case
    by simp
qed

lemma runChecksLoop_wellKept:
  "runChecksLoop config env w checks run = Inr run' \<Longrightarrow> ident \<in> cfg_id ` set checks \<Longrightarrow>
   \<exists>s. state_checks (run_state run') ident = Some s \<and> wellKept s"
proof (induction checks arbitrary: run)
  case Nil
  then show ?case by simp
next
  case (Cons check rest)
  from Cons.prems(1) obtain mid where
    step: "evaluateCheck config env w check run = Inr mid"
    and loop: "runChecksLoop config env w rest mid = Inr run'"
    by (auto split: sum.splits)
  show ?case
  proof (cases "ident \<in> cfg_id ` set rest")
    case True
    with Cons.IH [OF loop] show ?thesis .
  next
    case False
    with Cons.prems(2) have here: "ident = cfg_id check"
      by auto
    from runChecksLoop_others [OF loop False] evaluateCheck_wellKept [OF step] here
    show ?thesis
      by simp
  qed
qed

end
